theory Spec2Isabelle
  imports Complex_Main
begin

section \<open>Python values, dictionaries and errors\<close>

text \<open>
  The status mapping is a Python dict from status names to booleans, floats and failure
  codes. Floats and ints are modelled as exact reals. A read of a missing key raises
  KeyError; ordering a string against a number raises TypeError.
\<close>

datatype pyval = PBool bool | PNum real | PStr string

datatype error = KeyError pyval | TypeError | ValueError | AttributeError

type_synonym status = "string \<rightharpoonup> pyval"

text \<open>Truth value of a Python object, as \<open>if x:\<close> and \<open>not x\<close> test it.\<close>

fun truthy :: "pyval \<Rightarrow> bool" where
  "truthy (PBool b) = b"
| "truthy (PNum x) = (x \<noteq> 0)"
| "truthy (PStr s) = (s \<noteq> [])"

text \<open>\<open>d[k]\<close> on a dict with string keys.\<close>

definition getitem :: "(string \<rightharpoonup> 'a) \<Rightarrow> string \<Rightarrow> error + 'a" where
  "getitem d k = (case d k of None \<Rightarrow> Inl (KeyError (PStr k)) | Some v \<Rightarrow> Inr v)"

text \<open>The number a value stands for in an ordering comparison (bool is a subclass of int).\<close>

fun num_of :: "pyval \<Rightarrow> error + real" where
  "num_of (PBool b) = Inr (if b then 1 else 0)"
| "num_of (PNum x) = Inr x"
| "num_of (PStr s) = Inl TypeError"

text \<open>\<open>a < b\<close>, \<open>a > b\<close> and \<open>a >= b\<close> of a status value against a configured number.\<close>

definition py_lt :: "pyval \<Rightarrow> real \<Rightarrow> error + bool" where
  "py_lt a b = (case num_of a of Inl e \<Rightarrow> Inl e | Inr x \<Rightarrow> Inr (x < b))"

definition py_gt :: "pyval \<Rightarrow> real \<Rightarrow> error + bool" where
  "py_gt a b = (case num_of a of Inl e \<Rightarrow> Inl e | Inr x \<Rightarrow> Inr (x > b))"

definition py_ge :: "pyval \<Rightarrow> real \<Rightarrow> error + bool" where
  "py_ge a b = (case num_of a of Inl e \<Rightarrow> Inl e | Inr x \<Rightarrow> Inr (x \<ge> b))"

section \<open>Status processors (saferl/aerospace/tasks/rejoin/processors.py)\<close>

subsection \<open>DubinsRejoinTime\<close>

record rejoin_time_config =
  rt_rejoin_status :: string

record rejoin_time_state =
  rt_rejoin_time :: real
  rt_in_rejoin :: pyval

definition rejoin_time_reset :: "rejoin_time_config \<Rightarrow> status \<Rightarrow> error + rejoin_time_state" where
  "rejoin_time_reset cfg st =
     (case getitem st (rt_rejoin_status cfg) of
        Inl e \<Rightarrow> Inl e
      | Inr v \<Rightarrow> Inr \<lparr>rt_rejoin_time = 0, rt_in_rejoin = v\<rparr>)"

definition rejoin_time_increment ::
  "rejoin_time_config \<Rightarrow> rejoin_time_state \<Rightarrow> real \<Rightarrow> status \<Rightarrow> error + rejoin_time_state" where
  "rejoin_time_increment cfg s step_size st =
     (case getitem st (rt_rejoin_status cfg) of
        Inl e \<Rightarrow> Inl e
      | Inr v \<Rightarrow>
          (let s1 = s\<lparr>rt_in_rejoin := v\<rparr>
           in if truthy (rt_in_rejoin s1)
              then Inr (s1\<lparr>rt_rejoin_time := rt_rejoin_time s1 + step_size\<rparr>)
              else Inr (s1\<lparr>rt_rejoin_time := 0\<rparr>)))"

definition rejoin_time_process :: "rejoin_time_state \<Rightarrow> real" where
  "rejoin_time_process s = rt_rejoin_time s"

subsection \<open>DubinsFailureStatus\<close>

record failure_config =
  lead_distance_key :: string
  time_elapsed_key :: string
  safety_margin :: "string \<rightharpoonup> real"
  timeout :: real
  max_goal_dist :: real

record failure_state =
  fs_lead_distance :: pyval
  fs_time_elapsed :: pyval

definition failure_reset :: "failure_config \<Rightarrow> status \<Rightarrow> error + failure_state" where
  "failure_reset cfg st =
     (case getitem st (lead_distance_key cfg) of
        Inl e \<Rightarrow> Inl e
      | Inr ld \<Rightarrow>
          (case getitem st (time_elapsed_key cfg) of
             Inl e \<Rightarrow> Inl e
           | Inr te \<Rightarrow> Inr \<lparr>fs_lead_distance = ld, fs_time_elapsed = te\<rparr>))"

definition failure_increment ::
  "failure_config \<Rightarrow> failure_state \<Rightarrow> real \<Rightarrow> status \<Rightarrow> error + failure_state" where
  "failure_increment cfg s step_size st =
     (case getitem st (lead_distance_key cfg) of
        Inl e \<Rightarrow> Inl e
      | Inr ld \<Rightarrow>
          (case getitem st (time_elapsed_key cfg) of
             Inl e \<Rightarrow> Inl e
           | Inr te \<Rightarrow> Inr (s\<lparr>fs_lead_distance := ld, fs_time_elapsed := te\<rparr>)))"

text \<open>
  The \<open>if\<close>/\<open>elif\<close> chain of \<open>_process\<close>: each test is evaluated only when the ones
  before it were false.
\<close>

definition failure_process :: "failure_config \<Rightarrow> failure_state \<Rightarrow> error + pyval" where
  "failure_process cfg s =
     (case getitem (safety_margin cfg) ''aircraft'' of
        Inl e \<Rightarrow> Inl e
      | Inr margin \<Rightarrow>
          (case py_lt (fs_lead_distance s) margin of
             Inl e \<Rightarrow> Inl e
           | Inr True \<Rightarrow> Inr (PStr ''crash'')
           | Inr False \<Rightarrow>
               (case py_gt (fs_time_elapsed s) (timeout cfg) of
                  Inl e \<Rightarrow> Inl e
                | Inr True \<Rightarrow> Inr (PStr ''timeout'')
                | Inr False \<Rightarrow>
                    (case py_ge (fs_lead_distance s) (max_goal_dist cfg) of
                       Inl e \<Rightarrow> Inl e
                     | Inr True \<Rightarrow> Inr (PStr ''distance'')
                     | Inr False \<Rightarrow> Inr (PBool False)))))"

text \<open>One step of the processor: \<open>_increment\<close>, then \<open>_process\<close>.\<close>

definition failure_step ::
  "failure_config \<Rightarrow> failure_state \<Rightarrow> real \<Rightarrow> status \<Rightarrow> error + (failure_state \<times> pyval)" where
  "failure_step cfg s step_size st =
     (case failure_increment cfg s step_size st of
        Inl e \<Rightarrow> Inl e
      | Inr s' \<Rightarrow> (case failure_process cfg s' of Inl e \<Rightarrow> Inl e | Inr f \<Rightarrow> Inr (s', f)))"

section \<open>Reward processors (saferl/aerospace/tasks/rejoin/processors.py)\<close>

subsection \<open>The RewardProcessor base class\<close>

text \<open>
  Modelled from the spec: the state of the RewardProcessor base class
  (saferl.environment.tasks.processor, not among the sources). Following the spec, each
  reward processor owns a current-step value and a running total, and a reset
  re-initialises both (to zero, in the resets of the processors below).
\<close>

record reward_acc =
  step_value :: real
  total_value :: real

text \<open>
  Modelled from the spec: the bookkeeping of a step in the RewardProcessor base class (not
  among the sources). Following the spec, in every step the pipeline calls \<open>_increment\<close>,
  then \<open>_process\<close>, records the value \<open>_process\<close> returned as the step value and adds it to
  the running total.
\<close>

definition reward_acc_record :: "real \<Rightarrow> 'a reward_acc_scheme \<Rightarrow> 'a reward_acc_scheme" where
  "reward_acc_record r s = s\<lparr>step_value := r, total_value := total_value s + r\<rparr>"

subsection \<open>RejoinRewardProcessor\<close>

record rejoin_reward_config =
  rr_reward :: real
  rr_rejoin_status :: string
  rr_rejoin_prev_status :: string

record rejoin_reward_state = reward_acc +
  rr_step_size :: real
  rr_in_rejoin_for_step :: bool
  rr_left_rejoin :: bool

definition rejoin_reward_reset :: "rejoin_reward_state" where
  "rejoin_reward_reset =
     \<lparr>step_value = 0, total_value = 0,
      rr_step_size = 0, rr_in_rejoin_for_step = False, rr_left_rejoin = False\<rparr>"

definition rejoin_reward_increment ::
  "rejoin_reward_config \<Rightarrow> rejoin_reward_state \<Rightarrow> real \<Rightarrow> status \<Rightarrow> error + rejoin_reward_state"
  where
  "rejoin_reward_increment cfg s step_size st =
     (let s1 = s\<lparr>rr_left_rejoin := False, rr_in_rejoin_for_step := False,
                  rr_step_size := step_size\<rparr>
      in case getitem st (rr_rejoin_status cfg) of
           Inl e \<Rightarrow> Inl e
         | Inr in_rejoin \<Rightarrow>
             (case getitem st (rr_rejoin_prev_status cfg) of
                Inl e \<Rightarrow> Inl e
              | Inr in_rejoin_prev \<Rightarrow>
                  if truthy in_rejoin \<and> truthy in_rejoin_prev
                  then Inr (s1\<lparr>rr_in_rejoin_for_step := True\<rparr>)
                  else if \<not> truthy in_rejoin \<and> truthy in_rejoin_prev
                  then Inr (s1\<lparr>rr_left_rejoin := True\<rparr>)
                  else Inr s1))"

definition rejoin_reward_process :: "rejoin_reward_config \<Rightarrow> rejoin_reward_state \<Rightarrow> real" where
  "rejoin_reward_process cfg s =
     (if rr_in_rejoin_for_step s then rr_reward cfg * rr_step_size s
      else if rr_left_rejoin s then - 1 * total_value s
      else 0)"

text \<open>One pipeline step of the processor, with the base class's bookkeeping.\<close>

definition rejoin_reward_step ::
  "rejoin_reward_config \<Rightarrow> rejoin_reward_state \<Rightarrow> real \<Rightarrow> status
     \<Rightarrow> error + (rejoin_reward_state \<times> real)" where
  "rejoin_reward_step cfg s step_size st =
     (case rejoin_reward_increment cfg s step_size st of
        Inl e \<Rightarrow> Inl e
      | Inr s1 \<Rightarrow>
          (let r = rejoin_reward_process cfg s1 in Inr (reward_acc_record r s1, r)))"

text \<open>
  The state after the steps of an episode, run in order from a given state, each with its
  step size and status mapping.
\<close>

fun rejoin_reward_steps ::
  "rejoin_reward_config \<Rightarrow> rejoin_reward_state \<Rightarrow> (real \<times> status) list
     \<Rightarrow> error + rejoin_reward_state" where
  "rejoin_reward_steps cfg s [] = Inr s"
| "rejoin_reward_steps cfg s ((step_size, st) # rest) =
     (case rejoin_reward_step cfg s step_size st of
        Inl e \<Rightarrow> Inl e
      | Inr (s1, r) \<Rightarrow> rejoin_reward_steps cfg s1 rest)"

subsection \<open>RejoinFirstTimeRewardProcessor\<close>

record first_time_config =
  ft_reward :: real
  ft_rejoin_status :: string

record first_time_state = reward_acc +
  ft_rejoin_first_time :: bool
  ft_rejoin_first_time_applied :: bool
  ft_in_rejoin :: pyval

definition first_time_reset :: "first_time_config \<Rightarrow> status \<Rightarrow> error + first_time_state" where
  "first_time_reset cfg st =
     (case getitem st (ft_rejoin_status cfg) of
        Inl e \<Rightarrow> Inl e
      | Inr v \<Rightarrow>
          Inr \<lparr>step_value = 0, total_value = 0,
               ft_rejoin_first_time = False, ft_rejoin_first_time_applied = False,
               ft_in_rejoin = v\<rparr>)"

definition first_time_increment ::
  "first_time_config \<Rightarrow> first_time_state \<Rightarrow> real \<Rightarrow> status \<Rightarrow> error + first_time_state" where
  "first_time_increment cfg s step_size st =
     (let s1 = (if ft_rejoin_first_time s
                then s\<lparr>ft_rejoin_first_time_applied := True, ft_rejoin_first_time := False\<rparr>
                else s)
      in case getitem st (ft_rejoin_status cfg) of
           Inl e \<Rightarrow> Inl e
         | Inr in_rejoin \<Rightarrow>
             if truthy in_rejoin \<and> \<not> ft_rejoin_first_time_applied s1
             then Inr (s1\<lparr>ft_rejoin_first_time := True\<rparr>)
             else Inr s1)"

definition first_time_process :: "first_time_config \<Rightarrow> first_time_state \<Rightarrow> real" where
  "first_time_process cfg s = (if ft_rejoin_first_time s then ft_reward cfg else 0)"

definition first_time_step ::
  "first_time_config \<Rightarrow> first_time_state \<Rightarrow> real \<Rightarrow> status \<Rightarrow> error + (first_time_state \<times> real)"
  where
  "first_time_step cfg s step_size st =
     (case first_time_increment cfg s step_size st of
        Inl e \<Rightarrow> Inl e
      | Inr s1 \<Rightarrow> (let r = first_time_process cfg s1 in Inr (reward_acc_record r s1, r)))"

text \<open>
  An episode: the steps are run in order on the state the reset left, each with its step size
  and status mapping; the step rewards are collected in order.
\<close>

fun first_time_steps ::
  "first_time_config \<Rightarrow> first_time_state \<Rightarrow> (real \<times> status) list
     \<Rightarrow> error + (first_time_state \<times> real list)" where
  "first_time_steps cfg s [] = Inr (s, [])"
| "first_time_steps cfg s ((step_size, st) # rest) =
     (case first_time_step cfg s step_size st of
        Inl e \<Rightarrow> Inl e
      | Inr (s1, r) \<Rightarrow>
          (case first_time_steps cfg s1 rest of
             Inl e \<Rightarrow> Inl e
           | Inr (s2, rs) \<Rightarrow> Inr (s2, r # rs)))"

definition first_time_episode ::
  "first_time_config \<Rightarrow> status \<Rightarrow> (real \<times> status) list
     \<Rightarrow> error + (first_time_state \<times> real list)" where
  "first_time_episode cfg st0 steps =
     (case first_time_reset cfg st0 of
        Inl e \<Rightarrow> Inl e
      | Inr s0 \<Rightarrow> first_time_steps cfg s0 steps)"

text \<open>Whether a status mapping says that the tracked region contains the agent.\<close>

definition ft_contained :: "first_time_config \<Rightarrow> status \<Rightarrow> bool" where
  "ft_contained cfg st = (case st (ft_rejoin_status cfg) of None \<Rightarrow> False | Some v \<Rightarrow> truthy v)"

text \<open>
  The rewards the specification describes for a containment trace: the bonus at the first
  true entry, zero everywhere else.
\<close>

fun first_award :: "real \<Rightarrow> bool list \<Rightarrow> real list" where
  "first_award b [] = []"
| "first_award b (c # cs) =
     (if c then b # replicate (length cs) 0 else 0 # first_award b cs)"

subsection \<open>RejoinDistanceChangeRewardProcessor\<close>

text \<open>
  The geometry collaborator's \<open>distance\<close> (saferl.environment.models.geometry) and the
  environment objects are not among the sources: the objects are of any type \<open>'o\<close>, the
  object set is a dict from names to objects, and \<open>distance\<close> is a parameter.
\<close>

definition distance_between ::
  "('o \<Rightarrow> 'o \<Rightarrow> real) \<Rightarrow> (string \<rightharpoonup> 'o) \<Rightarrow> string \<Rightarrow> string \<Rightarrow> error + real" where
  "distance_between distance env_objs a b =
     (case getitem env_objs a of
        Inl e \<Rightarrow> Inl e
      | Inr x \<Rightarrow> (case getitem env_objs b of Inl e \<Rightarrow> Inl e | Inr y \<Rightarrow> Inr (distance x y)))"

record dist_change_config =
  dc_reward :: real
  dc_rejoin_status :: string
  dc_wingman :: string
  dc_rejoin_region :: string

record dist_change_state = reward_acc +
  dc_prev_distance :: real
  dc_cur_distance :: real
  dc_in_rejoin :: pyval

definition dist_change_reset ::
  "dist_change_config \<Rightarrow> ('o \<Rightarrow> 'o \<Rightarrow> real) \<Rightarrow> (string \<rightharpoonup> 'o) \<Rightarrow> status
     \<Rightarrow> error + dist_change_state" where
  "dist_change_reset cfg distance env_objs st =
     (case distance_between distance env_objs (dc_wingman cfg) (dc_rejoin_region cfg) of
        Inl e \<Rightarrow> Inl e
      | Inr d \<Rightarrow>
          (case getitem st (dc_rejoin_status cfg) of
             Inl e \<Rightarrow> Inl e
           | Inr v \<Rightarrow>
               Inr \<lparr>step_value = 0, total_value = 0,
                    dc_prev_distance = d, dc_cur_distance = d, dc_in_rejoin = v\<rparr>))"

definition dist_change_increment ::
  "dist_change_config \<Rightarrow> ('o \<Rightarrow> 'o \<Rightarrow> real) \<Rightarrow> dist_change_state \<Rightarrow> (string \<rightharpoonup> 'o) \<Rightarrow> real
     \<Rightarrow> status \<Rightarrow> error + dist_change_state" where
  "dist_change_increment cfg distance s env_objs step_size st =
     (let s1 = s\<lparr>dc_prev_distance := dc_cur_distance s\<rparr>
      in case distance_between distance env_objs (dc_wingman cfg) (dc_rejoin_region cfg) of
           Inl e \<Rightarrow> Inl e
         | Inr d \<Rightarrow>
             (case getitem st (dc_rejoin_status cfg) of
                Inl e \<Rightarrow> Inl e
              | Inr v \<Rightarrow> Inr (s1\<lparr>dc_cur_distance := d, dc_in_rejoin := v\<rparr>)))"

definition dist_change_process :: "dist_change_config \<Rightarrow> dist_change_state \<Rightarrow> real" where
  "dist_change_process cfg s =
     (let distance_change = dc_cur_distance s - dc_prev_distance s
      in if \<not> truthy (dc_in_rejoin s) then distance_change * dc_reward cfg else 0)"

subsection \<open>DubinsSuccessStatus\<close>

record success_config =
  rejoin_time_key :: string
  success_time :: real

record success_state =
  ss_rejoin_time :: pyval

definition success_reset :: "success_config \<Rightarrow> status \<Rightarrow> error + success_state" where
  "success_reset cfg st =
     (case getitem st (rejoin_time_key cfg) of
        Inl e \<Rightarrow> Inl e
      | Inr v \<Rightarrow> Inr \<lparr>ss_rejoin_time = v\<rparr>)"

definition success_increment ::
  "success_config \<Rightarrow> success_state \<Rightarrow> real \<Rightarrow> status \<Rightarrow> error + success_state" where
  "success_increment cfg s timestep st =
     (case getitem st (rejoin_time_key cfg) of
        Inl e \<Rightarrow> Inl e
      | Inr v \<Rightarrow> Inr (s\<lparr>ss_rejoin_time := v\<rparr>))"

definition success_process :: "success_config \<Rightarrow> success_state \<Rightarrow> error + pyval" where
  "success_process cfg s =
     (case py_gt (ss_rejoin_time s) (success_time cfg) of
        Inl e \<Rightarrow> Inl e
      | Inr b \<Rightarrow> Inr (PBool b))"

section \<open>Docking environment (rejoin/rejoin_rta/environments/docking_env.py)\<close>

subsection \<open>DockingRewardProcessor\<close>

record docking_reward_config =
  cfg_time_decay :: real
  cfg_dist_change :: real
  cfg_failure :: "string \<rightharpoonup> real"
  cfg_success :: real

record docking_reward_state =
  dr_prev_distance :: real
  dr_step_reward :: real
  dr_total_reward :: real
  dr_reward_component_totals :: "string \<rightharpoonup> real"


text \<open>\<open>d[k] += x\<close> on a dict.\<close>

definition dict_add :: "(string \<rightharpoonup> real) \<Rightarrow> string \<Rightarrow> real \<Rightarrow> error + (string \<rightharpoonup> real)" where
  "dict_add d k x = (case getitem d k of Inl e \<Rightarrow> Inl e | Inr v \<Rightarrow> Inr (d(k \<mapsto> v + x)))"

text \<open>\<open>config['failure'][code]\<close>: the dict of failure rewards has the failure codes as keys.\<close>

definition failure_reward_of :: "(string \<rightharpoonup> real) \<Rightarrow> pyval \<Rightarrow> error + real" where
  "failure_reward_of d code =
     (case code of PStr k \<Rightarrow> getitem d k | PBool b \<Rightarrow> Inl (KeyError code)
      | PNum x \<Rightarrow> Inl (KeyError code))"

text \<open>
  The failure and the success reward of a step: the \<open>if\<close>/\<open>elif\<close> on the status record's
  failure and success fields. The result is the pair (failure reward, success reward).
\<close>

definition terminal_rewards :: "docking_reward_config \<Rightarrow> status \<Rightarrow> error + (real \<times> real)" where
  "terminal_rewards cfg status_dict =
     (case getitem status_dict ''failure'' of
        Inl e \<Rightarrow> Inl e
      | Inr f \<Rightarrow>
          if truthy f
          then (case failure_reward_of (cfg_failure cfg) f of
                  Inl e \<Rightarrow> Inl e
                | Inr fr \<Rightarrow> Inr (0 + fr, 0))
          else (case getitem status_dict ''success'' of
                  Inl e \<Rightarrow> Inl e
                | Inr su \<Rightarrow> if truthy su then Inr (0, 0 + cfg_success cfg) else Inr (0, 0)))"

text \<open>The four \<open>+=\<close> on the component totals, in the order of the source.\<close>

definition add_component_totals ::
  "(string \<rightharpoonup> real) \<Rightarrow> real \<Rightarrow> real \<Rightarrow> real \<Rightarrow> real \<Rightarrow> error + (string \<rightharpoonup> real)" where
  "add_component_totals d time_reward distance_change_reward success_reward failure_reward =
     (case dict_add d ''time'' time_reward of
        Inl e \<Rightarrow> Inl e
      | Inr d1 \<Rightarrow>
          (case dict_add d1 ''distance_change'' distance_change_reward of
             Inl e \<Rightarrow> Inl e
           | Inr d2 \<Rightarrow>
               (case dict_add d2 ''success'' success_reward of
                  Inl e \<Rightarrow> Inl e
                | Inr d3 \<Rightarrow> dict_add d3 ''failure'' failure_reward)))"

definition gen_reward ::
  "docking_reward_config \<Rightarrow> ('o \<Rightarrow> 'o \<Rightarrow> real) \<Rightarrow> docking_reward_state \<Rightarrow> (string \<rightharpoonup> 'o)
     \<Rightarrow> real \<Rightarrow> status \<Rightarrow> error + (docking_reward_state \<times> real)" where
  "gen_reward cfg distance s env_objs timestep status_dict =
     (let time_reward = 0 + cfg_time_decay cfg
      in case distance_between distance env_objs ''deputy'' ''docking_region'' of
           Inl e \<Rightarrow> Inl e
         | Inr cur_distance \<Rightarrow>
             (let dist_change = cur_distance - dr_prev_distance s;
                  s1 = s\<lparr>dr_prev_distance := cur_distance\<rparr>;
                  distance_change_reward = 0 + dist_change * cfg_dist_change cfg
              in case terminal_rewards cfg status_dict of
                   Inl e \<Rightarrow> Inl e
                 | Inr (failure_reward, success_reward) \<Rightarrow>
                     (let reward =
                            0 + time_reward + distance_change_reward + success_reward
                              + failure_reward;
                          s2 = s1\<lparr>dr_step_reward := reward,
                                  dr_total_reward := dr_total_reward s1 + reward\<rparr>
                      in case add_component_totals (dr_reward_component_totals s2) time_reward
                                distance_change_reward success_reward failure_reward of
                           Inl e \<Rightarrow> Inl e
                         | Inr d \<Rightarrow> Inr (s2\<lparr>dr_reward_component_totals := d\<rparr>, reward))))"




subsection \<open>DockingConstraintProcessor\<close>

text \<open>
  The region's containment test (\<open>contains\<close>, of the geometry collaborator) is a parameter,
  as \<open>distance\<close> is.
\<close>

record constraint_config =
  cc_timeout :: real
  cc_max_goal_distance :: real

record constraint_state =
  cs_time_elapsed :: real
  cs_in_docking :: bool

definition constraint_reset :: "constraint_state" where
  "constraint_reset = \<lparr>cs_time_elapsed = 0, cs_in_docking = False\<rparr>"

definition check_docking_cond ::
  "('o \<Rightarrow> 'o \<Rightarrow> bool) \<Rightarrow> (string \<rightharpoonup> 'o) \<Rightarrow> error + bool" where
  "check_docking_cond contains env_objs =
     (case getitem env_objs ''docking_region'' of
        Inl e \<Rightarrow> Inl e
      | Inr region \<Rightarrow>
          (case getitem env_objs ''deputy'' of
             Inl e \<Rightarrow> Inl e
           | Inr deputy \<Rightarrow> Inr (contains region deputy)))"

definition check_constraints ::
  "constraint_config \<Rightarrow> ('o \<Rightarrow> 'o \<Rightarrow> real) \<Rightarrow> ('o \<Rightarrow> 'o \<Rightarrow> bool) \<Rightarrow> constraint_state
     \<Rightarrow> (string \<rightharpoonup> 'o) \<Rightarrow> error + status" where
  "check_constraints cfg distance contains s env_objs =
     (case check_docking_cond contains env_objs of
        Inl e \<Rightarrow> Inl e
      | Inr in_docking \<Rightarrow>
          (case distance_between distance env_objs ''deputy'' ''docking_region'' of
             Inl e \<Rightarrow> Inl e
           | Inr dock_distance \<Rightarrow>
               (let failure =
                      (if cs_time_elapsed s > cc_timeout cfg then PStr ''timeout''
                       else if dock_distance \<ge> cc_max_goal_distance cfg then PStr ''distance''
                       else PBool False);
                    success = (if in_docking then True else False)
                in Inr [''success'' \<mapsto> PBool success, ''failure'' \<mapsto> failure,
                        ''in_docking'' \<mapsto> PBool in_docking,
                        ''time_elapsed'' \<mapsto> PNum (cs_time_elapsed s)])))"

definition constraint_step ::
  "constraint_config \<Rightarrow> ('o \<Rightarrow> 'o \<Rightarrow> real) \<Rightarrow> ('o \<Rightarrow> 'o \<Rightarrow> bool) \<Rightarrow> constraint_state
     \<Rightarrow> (string \<rightharpoonup> 'o) \<Rightarrow> real \<Rightarrow> error + (constraint_state \<times> status)" where
  "constraint_step cfg distance contains s env_objs timestep =
     (let s1 = s\<lparr>cs_time_elapsed := cs_time_elapsed s + timestep\<rparr>
      in case check_constraints cfg distance contains s1 env_objs of
           Inl e \<Rightarrow> Inl e
         | Inr status_dict \<Rightarrow> Inr (s1, status_dict))"

text \<open>
  The constraint processor over the steps of an episode, from the state \<open>reset\<close> leaves: the
  status record of every step, in order.
\<close>

fun constraint_steps ::
  "constraint_config \<Rightarrow> ('o \<Rightarrow> 'o \<Rightarrow> real) \<Rightarrow> ('o \<Rightarrow> 'o \<Rightarrow> bool) \<Rightarrow> constraint_state
     \<Rightarrow> ((string \<rightharpoonup> 'o) \<times> real) list \<Rightarrow> error + (constraint_state \<times> status list)" where
  "constraint_steps cfg distance contains s [] = Inr (s, [])"
| "constraint_steps cfg distance contains s ((env_objs, timestep) # rest) =
     (case constraint_step cfg distance contains s env_objs timestep of
        Inl e \<Rightarrow> Inl e
      | Inr (s1, status_dict) \<Rightarrow>
          (case constraint_steps cfg distance contains s1 rest of
             Inl e \<Rightarrow> Inl e
           | Inr (s2, sts) \<Rightarrow> Inr (s2, status_dict # sts)))"

section \<open>Observation processor (saferl/aerospace/tasks/rejoin/processors.py)\<close>

subsection \<open>numpy floats and arrays\<close>

text \<open>
  The entries of a float64 array are exact reals, the two infinities or NaN: a division by
  zero does not raise in numpy, it yields an infinity or, for \<open>0 / 0\<close>, NaN. Zeros carry no
  sign here. One-dimensional arrays are lists.
\<close>

datatype npfloat = Fin real | PInf | NInf | NaN

fun np_div :: "npfloat \<Rightarrow> npfloat \<Rightarrow> npfloat" where
  "np_div NaN y = NaN"
| "np_div x NaN = NaN"
| "np_div (Fin x) (Fin y) =
     (if y \<noteq> 0 then Fin (x / y) else if x = 0 then NaN else if x > 0 then PInf else NInf)"
| "np_div (Fin x) PInf = Fin 0"
| "np_div (Fin x) NInf = Fin 0"
| "np_div PInf (Fin y) = (if y \<ge> 0 then PInf else NInf)"
| "np_div NInf (Fin y) = (if y \<ge> 0 then NInf else PInf)"
| "np_div PInf PInf = NaN"
| "np_div PInf NInf = NaN"
| "np_div NInf PInf = NaN"
| "np_div NInf NInf = NaN"


text \<open>\<open>np.clip(x, lo, hi)\<close> is \<open>minimum(maximum(x, lo), hi)\<close>; NaN stays NaN.\<close>

fun np_clip :: "real \<Rightarrow> real \<Rightarrow> npfloat \<Rightarrow> npfloat" where
  "np_clip lo hi NaN = NaN"
| "np_clip lo hi (Fin x) = Fin (min (max x lo) hi)"
| "np_clip lo hi PInf = Fin hi"
| "np_clip lo hi NInf = Fin (min lo hi)"

text \<open>
  An elementwise operation on two one-dimensional arrays: the shapes must be equal, or one
  of them must be 1 (broadcasting); otherwise numpy raises ValueError.
\<close>

definition np_elementwise :: "('a \<Rightarrow> 'b \<Rightarrow> 'c) \<Rightarrow> 'a list \<Rightarrow> 'b list \<Rightarrow> error + 'c list" where
  "np_elementwise f xs ys =
     (if length xs = length ys then Inr (map2 f xs ys)
      else if length xs = 1 then Inr (map (f (hd xs)) ys)
      else if length ys = 1 then Inr (map (\<lambda>x. f x (hd ys)) xs)
      else Inl ValueError)"

definition np_linalg_norm :: "real list \<Rightarrow> real" where
  "np_linalg_norm vec = sqrt (sum_list (map (\<lambda>x. \<bar>x\<bar> ^ 2) vec))"

subsection \<open>DubinsObservationProcessor\<close>

text \<open>
  The environment objects (not among the sources) expose a position, a velocity and an
  orientation. The orientation is a rotation of scipy's; the library's identity rotation
  \<open>Rotation.from_quat([0, 0, 0, 1])\<close>, \<open>inv\<close> and \<open>apply\<close> are parameters.
\<close>

record 'r env_obj =
  position :: "real list"
  velocity :: "real list"
  orientation :: 'r

record 'r rotation_lib =
  rot_identity :: 'r
  rot_inv :: "'r \<Rightarrow> 'r"
  rot_apply :: "'r \<Rightarrow> real list \<Rightarrow> real list"

record obs_config =
  oc_lead :: string
  oc_wingman :: string
  oc_rejoin_region :: string
  oc_reference :: string
  oc_mode :: string

text \<open>
  The attribute \<open>obs_norm_const\<close> that \<open>__init__\<close> sets for the two known modes; for any
  other mode it is never set, and reading it raises AttributeError.
\<close>

definition obs_norm_const :: "obs_config \<Rightarrow> error + real list" where
  "obs_norm_const cfg =
     (if oc_mode cfg = ''rect''
      then Inr [10000, 10000, 10000, 10000, 100, 100, 100, 100]
      else if oc_mode cfg = ''magnorm''
      then Inr [10000, 1, 1, 10000, 1, 1, 100, 1, 1, 100, 1, 1]
      else Inl AttributeError)"

definition vec2magnorm :: "real list \<Rightarrow> npfloat list" where
  "vec2magnorm vec =
     (let norm = np_linalg_norm vec
      in [Fin norm] @ map (\<lambda>x. np_div (Fin x) (Fin norm)) vec)"


definition obs_process ::
  "obs_config \<Rightarrow> 'r rotation_lib \<Rightarrow> (string \<rightharpoonup> 'r env_obj) \<Rightarrow> error + npfloat list" where
  "obs_process cfg lib env_objs =
     (case getitem env_objs (oc_lead cfg) of
        Inl e \<Rightarrow> Inl e
      | Inr lead \<Rightarrow>
     (case getitem env_objs (oc_wingman cfg) of
        Inl e \<Rightarrow> Inl e
      | Inr wingman \<Rightarrow>
     (case np_elementwise (\<lambda>a b. a - b) (position lead) (position wingman) of
        Inl e \<Rightarrow> Inl e
      | Inr wingman_lead_r \<Rightarrow>
     (case getitem env_objs (oc_rejoin_region cfg) of
        Inl e \<Rightarrow> Inl e
      | Inr rejoin_region \<Rightarrow>
     (case np_elementwise (\<lambda>a b. a - b) (position rejoin_region) (position wingman) of
        Inl e \<Rightarrow> Inl e
      | Inr wingman_rejoin_r \<Rightarrow>
          (let wingman_vel = velocity wingman;
               lead_vel = velocity lead;
               reference_rotation =
                 (if oc_reference cfg = ''wingman'' then rot_inv lib (orientation wingman)
                  else rot_identity lib);
               wingman_lead_r = rot_apply lib reference_rotation wingman_lead_r;
               wingman_rejoin_r = rot_apply lib reference_rotation wingman_rejoin_r;
               wingman_vel = rot_apply lib reference_rotation wingman_vel;
               lead_vel = rot_apply lib reference_rotation lead_vel;
               encode = (if oc_mode cfg = ''magnorm'' then vec2magnorm else map Fin);
               obs = encode wingman_lead_r @ encode wingman_rejoin_r
                       @ encode wingman_vel @ encode lead_vel
           in case obs_norm_const cfg of
                Inl e \<Rightarrow> Inl e
              | Inr consts \<Rightarrow>
                  (case np_elementwise np_div obs (map Fin consts) of
                     Inl e \<Rightarrow> Inl e
                   | Inr obs \<Rightarrow> Inr (map (np_clip (- 1) 1) obs))))))))"

text \<open>Whether an entry of an observation is a number of the closed interval from -1 to 1.\<close>

fun in_unit_box :: "npfloat \<Rightarrow> bool" where
  "in_unit_box (Fin x) = (- 1 \<le> x \<and> x \<le> 1)"
| "in_unit_box PInf = False"
| "in_unit_box NInf = False"
| "in_unit_box NaN = False"

section \<open>A concrete geometry for the examples\<close>

text \<open>
  The objects are points of the real line, \<open>distance\<close> is the distance of two points, and a
  region contains the points at distance at most 1 from its centre. The rotation library
  of the examples has one rotation, which leaves every vector as it is.
\<close>

definition line_distance :: "real \<Rightarrow> real \<Rightarrow> real" where
  [simp]: "line_distance a b = \<bar>a - b\<bar>"

definition line_contains :: "real \<Rightarrow> real \<Rightarrow> bool" where
  [simp]: "line_contains region obj = (\<bar>obj - region\<bar> \<le> 1)"


text \<open>The success and the failure field of every status record of a run, in order.\<close>

definition success_failure_fields ::
  "error + (constraint_state \<times> status list) \<Rightarrow> error + (pyval option \<times> pyval option) list" where
  "success_failure_fields run =
     (case run of
        Inl e \<Rightarrow> Inl e
      | Inr (s, sts) \<Rightarrow> Inr (map (\<lambda>st. (st ''success'', st ''failure'')) sts))"

section \<open>Properties\<close>

subsection \<open>What a successful \<open>gen_reward\<close> call did\<close>

lemma dict_add_Inr:
  "dict_add d k x = Inr d' \<Longrightarrow> \<exists>v. d k = Some v \<and> d' = d(k \<mapsto> v + x)"
  by (auto simp: dict_add_def getitem_def split: option.splits)

lemma add_component_totals_Inr:
  assumes "add_component_totals d a b c e = Inr d'"
  shows "\<exists>t dc su f. d ''time'' = Some t \<and> d ''distance_change'' = Some dc
          \<and> d ''success'' = Some su \<and> d ''failure'' = Some f
          \<and> d' ''time'' = Some (t + a) \<and> d' ''distance_change'' = Some (dc + b)
          \<and> d' ''success'' = Some (su + c) \<and> d' ''failure'' = Some (f + e)"
proof -
  from assms obtain d1 where 1: "dict_add d ''time'' a = Inr d1"
    by (auto simp: add_component_totals_def split: sum.splits)
  from assms 1 obtain d2 where 2: "dict_add d1 ''distance_change'' b = Inr d2"
    by (auto simp: add_component_totals_def split: sum.splits)
  from assms 1 2 obtain d3 where 3: "dict_add d2 ''success'' c = Inr d3"
    by (auto simp: add_component_totals_def split: sum.splits)
  from assms 1 2 3 have 4: "dict_add d3 ''failure'' e = Inr d'"
    by (auto simp: add_component_totals_def split: sum.splits)
  from dict_add_Inr[OF 1] obtain t where t: "d ''time'' = Some t" "d1 = d(''time'' \<mapsto> t + a)"
    by blast
  from dict_add_Inr[OF 2] obtain dc where dc: "d1 ''distance_change'' = Some dc"
      "d2 = d1(''distance_change'' \<mapsto> dc + b)"
    by blast
  from dict_add_Inr[OF 3] obtain su where su: "d2 ''success'' = Some su"
      "d3 = d2(''success'' \<mapsto> su + c)"
    by blast
  from dict_add_Inr[OF 4] obtain f where f: "d3 ''failure'' = Some f"
      "d' = d3(''failure'' \<mapsto> f + e)"
    by blast
  have "d ''distance_change'' = Some dc" using dc(1) t(2) by simp
  moreover have "d ''success'' = Some su" using su(1) dc(2) t(2) by simp
  moreover have "d ''failure'' = Some f" using f(1) su(2) dc(2) t(2) by simp
  moreover have "d' ''time'' = Some (t + a)" using f(2) su(2) dc(2) t(2) by simp
  moreover have "d' ''distance_change'' = Some (dc + b)" using f(2) su(2) dc(2) by simp
  moreover have "d' ''success'' = Some (su + c)" using f(2) su(2) by simp
  moreover have "d' ''failure'' = Some (f + e)" using f(2) by simp
  ultimately show ?thesis using t(1) by simp
qed


lemma gen_reward_unfold:
  assumes "distance_between distance env_objs ''deputy'' ''docking_region'' = Inr cur"
    and "terminal_rewards cfg status_dict = Inr (fr, sr)"
  shows "gen_reward cfg distance s env_objs timestep status_dict =
     (case add_component_totals (dr_reward_component_totals s) (cfg_time_decay cfg)
             ((cur - dr_prev_distance s) * cfg_dist_change cfg) sr fr of
        Inl e \<Rightarrow> Inl e
      | Inr d \<Rightarrow>
          Inr (s\<lparr>dr_prev_distance := cur,
                 dr_step_reward :=
                   cfg_time_decay cfg + (cur - dr_prev_distance s) * cfg_dist_change cfg + sr + fr,
                 dr_total_reward := dr_total_reward s +
                   (cfg_time_decay cfg + (cur - dr_prev_distance s) * cfg_dist_change cfg + sr + fr),
                 dr_reward_component_totals := d\<rparr>,
               cfg_time_decay cfg + (cur - dr_prev_distance s) * cfg_dist_change cfg + sr + fr))"
  using assms by (simp add: gen_reward_def Let_def cong: sum.case_cong)

lemma gen_reward_InrE:
  assumes "gen_reward cfg distance s env_objs timestep status_dict = Inr (s', r)"
  obtains cur fr sr t dc su f where
    "distance_between distance env_objs ''deputy'' ''docking_region'' = Inr cur"
    "terminal_rewards cfg status_dict = Inr (fr, sr)"
    "r = cfg_time_decay cfg + (cur - dr_prev_distance s) * cfg_dist_change cfg + sr + fr"
    "dr_step_reward s' = r"
    "dr_total_reward s' = dr_total_reward s + r"
    "dr_prev_distance s' = cur"
    "dr_reward_component_totals s ''time'' = Some t"
    "dr_reward_component_totals s ''distance_change'' = Some dc"
    "dr_reward_component_totals s ''success'' = Some su"
    "dr_reward_component_totals s ''failure'' = Some f"
    "dr_reward_component_totals s' ''time'' = Some (t + cfg_time_decay cfg)"
    "dr_reward_component_totals s' ''distance_change''
       = Some (dc + (cur - dr_prev_distance s) * cfg_dist_change cfg)"
    "dr_reward_component_totals s' ''success'' = Some (su + sr)"
    "dr_reward_component_totals s' ''failure'' = Some (f + fr)"
proof -
  from assms obtain cur where cur:
    "distance_between distance env_objs ''deputy'' ''docking_region'' = Inr cur"
    by (cases "distance_between distance env_objs ''deputy'' ''docking_region''")
       (simp_all add: gen_reward_def)
  from assms cur obtain fr sr where tr: "terminal_rewards cfg status_dict = Inr (fr, sr)"
    by (cases "terminal_rewards cfg status_dict") (auto simp add: gen_reward_def Let_def)
  define r0 where
    "r0 = cfg_time_decay cfg + (cur - dr_prev_distance s) * cfg_dist_change cfg + sr + fr"
  note unfold = gen_reward_unfold[OF cur tr, of s timestep]
  from assms unfold obtain d where
    d: "add_component_totals (dr_reward_component_totals s) (cfg_time_decay cfg)
          ((cur - dr_prev_distance s) * cfg_dist_change cfg) sr fr = Inr d"
    by (cases "add_component_totals (dr_reward_component_totals s) (cfg_time_decay cfg)
          ((cur - dr_prev_distance s) * cfg_dist_change cfg) sr fr") simp_all
  from assms unfold d have
    s': "s' = s\<lparr>dr_prev_distance := cur, dr_step_reward := r0,
                    dr_total_reward := dr_total_reward s + r0,
                    dr_reward_component_totals := d\<rparr>"
    and r: "r = r0"
    by (auto simp add: r0_def)
  from add_component_totals_Inr[OF d] obtain t dc su f where
    td: "dr_reward_component_totals s ''time'' = Some t"
        "dr_reward_component_totals s ''distance_change'' = Some dc"
        "dr_reward_component_totals s ''success'' = Some su"
        "dr_reward_component_totals s ''failure'' = Some f"
        "d ''time'' = Some (t + cfg_time_decay cfg)"
        "d ''distance_change'' = Some (dc + (cur - dr_prev_distance s) * cfg_dist_change cfg)"
        "d ''success'' = Some (su + sr)"
        "d ''failure'' = Some (f + fr)"
    by blast
  show thesis
  proof (rule that[of cur fr sr t dc su f])
    show "distance_between distance env_objs ''deputy'' ''docking_region'' = Inr cur" by (rule cur)
    show "terminal_rewards cfg status_dict = Inr (fr, sr)" by (rule tr)
    show "r = cfg_time_decay cfg + (cur - dr_prev_distance s) * cfg_dist_change cfg + sr + fr"
      using r by (simp add: r0_def)
    show "dr_step_reward s' = r" using s' r by simp
    show "dr_total_reward s' = dr_total_reward s + r" using s' r by simp
    show "dr_prev_distance s' = cur" using s' by simp
    show "dr_reward_component_totals s ''time'' = Some t" by (rule td)
    show "dr_reward_component_totals s ''distance_change'' = Some dc" by (rule td)
    show "dr_reward_component_totals s ''success'' = Some su" by (rule td)
    show "dr_reward_component_totals s ''failure'' = Some f" by (rule td)
    show "dr_reward_component_totals s' ''time'' = Some (t + cfg_time_decay cfg)"
      using s' td(5) by simp
    show "dr_reward_component_totals s' ''distance_change''
       = Some (dc + (cur - dr_prev_distance s) * cfg_dist_change cfg)"
      using s' td(6) by simp
    show "dr_reward_component_totals s' ''success'' = Some (su + sr)" using s' td(7) by simp
    show "dr_reward_component_totals s' ''failure'' = Some (f + fr)" using s' td(8) by simp
  qed
qed

subsection \<open>RejoinRewardProcessor: refund on exit\<close>

text \<open>
  C1. RejoinRewardProcessor: in a step whose status mapping has the previous-step containment
  true and the current containment false, \<open>_process\<close> returns the negative of the running
  total, so the running total is exactly zero once the step value has been added to it. The
  refund flag is set by \<open>_increment\<close> exactly on such a step (it is cleared at the start of every
  \<open>_increment\<close>), and on every other step the step reward is the dwell reward or zero.
\<close>

theorem rejoin_refund_on_exit:
  assumes "st (rr_rejoin_status cfg) = Some c"
    and "st (rr_rejoin_prev_status cfg) = Some p"
  shows "\<exists>s1 s2 r.
           rejoin_reward_increment cfg s step_size st = Inr s1
         \<and> rejoin_reward_step cfg s step_size st = Inr (s2, r)
         \<and> r = rejoin_reward_process cfg s1
         \<and> total_value s1 = total_value s
         \<and> total_value s2 = total_value s + r
         \<and> (rr_left_rejoin s1 \<longleftrightarrow> truthy p \<and> \<not> truthy c)
         \<and> (truthy p \<and> \<not> truthy c \<longrightarrow> r = - total_value s \<and> total_value s2 = 0)
         \<and> (\<not> (truthy p \<and> \<not> truthy c) \<longrightarrow>
               r = (if truthy p \<and> truthy c then rr_reward cfg * step_size else 0))"
  using assms
  by (auto simp add: rejoin_reward_increment_def rejoin_reward_step_def
      rejoin_reward_process_def reward_acc_record_def getitem_def Let_def)

theorem rejoin_refund_on_exit_witness:
  "rejoin_reward_step
     \<lparr>rr_reward = 1, rr_rejoin_status = ''in_rejoin'', rr_rejoin_prev_status = ''in_rejoin_prev''\<rparr>
     \<lparr>step_value = 1, total_value = 4,
      rr_step_size = 1, rr_in_rejoin_for_step = True, rr_left_rejoin = False\<rparr> 1
     [''in_rejoin'' \<mapsto> PBool False, ''in_rejoin_prev'' \<mapsto> PBool True]
   = Inr (\<lparr>step_value = - 4, total_value = 0,
           rr_step_size = 1, rr_in_rejoin_for_step = False, rr_left_rejoin = True\<rparr>, - 4)"
  using rejoin_refund_on_exit
    [of "[''in_rejoin'' \<mapsto> PBool False, ''in_rejoin_prev'' \<mapsto> PBool True]"
        "\<lparr>rr_reward = 1, rr_rejoin_status = ''in_rejoin'',
          rr_rejoin_prev_status = ''in_rejoin_prev''\<rparr>"
        "PBool False" "PBool True"
        "\<lparr>step_value = 1, total_value = 4,
          rr_step_size = 1, rr_in_rejoin_for_step = True, rr_left_rejoin = False\<rparr>" 1]
  by (simp add: rejoin_reward_step_def rejoin_reward_increment_def rejoin_reward_process_def
      reward_acc_record_def getitem_def)

subsection \<open>DubinsFailureStatus: priority order\<close>

text \<open>
  C2. DubinsFailureStatus: for a status mapping that gives the lead distance and the elapsed
  time, \<open>_process\<close> (after \<open>reset\<close> as after \<open>_increment\<close>) returns the first failure code
  that matches in the order crash, timeout, distance: 'crash' when the lead distance is below
  the aircraft safety margin, otherwise 'timeout' when the elapsed time is above the timeout,
  otherwise 'distance' when the lead distance is at or above the maximum goal distance,
  otherwise False.
\<close>

theorem failure_first_match_in_priority_order:
  assumes "st (lead_distance_key cfg) = Some (PNum ld)"
    and "st (time_elapsed_key cfg) = Some (PNum te)"
    and "safety_margin cfg ''aircraft'' = Some margin"
  shows "(\<exists>s0. failure_reset cfg st = Inr s0 \<and> failure_increment cfg s step_size st = Inr s0
            \<and> failure_step cfg s step_size st = Inr (s0,
                 if ld < margin then PStr ''crash''
                 else if te > timeout cfg then PStr ''timeout''
                 else if ld \<ge> max_goal_dist cfg then PStr ''distance''
                 else PBool False)
            \<and> failure_process cfg s0 =
                (if ld < margin then Inr (PStr ''crash'')
                 else if te > timeout cfg then Inr (PStr ''timeout'')
                 else if ld \<ge> max_goal_dist cfg then Inr (PStr ''distance'')
                 else Inr (PBool False)))"
  using assms
  by (simp add: failure_reset_def failure_increment_def failure_step_def failure_process_def
      getitem_def py_lt_def py_gt_def py_ge_def)

text \<open>
  The scenario of the specification: thresholds crash 10, timeout 500, maximum goal distance
  50000; lead distance 9 at elapsed time 300 gives 'crash'.
\<close>

theorem failure_first_match_in_priority_order_witness:
  "failure_step
     \<lparr>lead_distance_key = ''lead_distance'', time_elapsed_key = ''time_elapsed'',
      safety_margin = [''aircraft'' \<mapsto> 10], timeout = 500, max_goal_dist = 50000\<rparr>
     \<lparr>fs_lead_distance = PNum 40000, fs_time_elapsed = PNum 299\<rparr> 1
     [''lead_distance'' \<mapsto> PNum 9, ''time_elapsed'' \<mapsto> PNum 300]
   = Inr (\<lparr>fs_lead_distance = PNum 9, fs_time_elapsed = PNum 300\<rparr>, PStr ''crash'')"
  using failure_first_match_in_priority_order
    [of "[''lead_distance'' \<mapsto> PNum 9, ''time_elapsed'' \<mapsto> PNum 300]"
        "\<lparr>lead_distance_key = ''lead_distance'', time_elapsed_key = ''time_elapsed'',
          safety_margin = [''aircraft'' \<mapsto> 10], timeout = 500, max_goal_dist = 50000\<rparr>"
        9 300 10 "\<lparr>fs_lead_distance = PNum 40000, fs_time_elapsed = PNum 299\<rparr>" 1]
  by (simp add: failure_increment_def getitem_def)

subsection \<open>Distance-change rewards\<close>

text \<open>
  The claim C3 as stated fails on RejoinDistanceChangeRewardProcessor: inside the rejoin
  region the step reward is zero whatever the change of distance. After a reset at distance
  10 and a step that brings the wingman to distance 8, with the containment status true and
  weight 1, \<open>_process\<close> returns 0 and not \<open>(8 - 10) * 1\<close>.
\<close>

theorem distance_change_in_region_counterexample:
  "dist_change_reset
     \<lparr>dc_reward = 1, dc_rejoin_status = ''in_rejoin'', dc_wingman = ''wingman'',
      dc_rejoin_region = ''rejoin_region''\<rparr>
     line_distance [''wingman'' \<mapsto> 10, ''rejoin_region'' \<mapsto> 0] [''in_rejoin'' \<mapsto> PBool True]
   = Inr \<lparr>step_value = 0, total_value = 0,
          dc_prev_distance = 10, dc_cur_distance = 10, dc_in_rejoin = PBool True\<rparr>
   \<and> dist_change_increment
       \<lparr>dc_reward = 1, dc_rejoin_status = ''in_rejoin'', dc_wingman = ''wingman'',
        dc_rejoin_region = ''rejoin_region''\<rparr>
       line_distance
       \<lparr>step_value = 0, total_value = 0,
        dc_prev_distance = 10, dc_cur_distance = 10, dc_in_rejoin = PBool True\<rparr>
       [''wingman'' \<mapsto> 8, ''rejoin_region'' \<mapsto> 0] 1 [''in_rejoin'' \<mapsto> PBool True]
   = Inr \<lparr>step_value = 0, total_value = 0,
          dc_prev_distance = 10, dc_cur_distance = 8, dc_in_rejoin = PBool True\<rparr>
   \<and> dist_change_process
       \<lparr>dc_reward = 1, dc_rejoin_status = ''in_rejoin'', dc_wingman = ''wingman'',
        dc_rejoin_region = ''rejoin_region''\<rparr>
       \<lparr>step_value = 0, total_value = 0,
        dc_prev_distance = 10, dc_cur_distance = 8, dc_in_rejoin = PBool True\<rparr>
     = 0
   \<and> (8 - 10) * (1::real) \<noteq> 0"
  by (simp add: dist_change_reset_def dist_change_increment_def dist_change_process_def
      distance_between_def getitem_def)

text \<open>
  C3 (amended). RejoinDistanceChangeRewardProcessor: \<open>_increment\<close> moves the tracked
  distance of the previous step into \<open>prev_distance\<close> and stores the current one; the step
  reward \<open>_process\<close> returns is \<open>(current - previous) * weight\<close> when the containment
  status of the step is false, and zero when it is true. DockingRewardProcessor: a
  \<open>gen_reward\<close> call adds \<open>(current - previous) * weight\<close> to the distance-change component
  whatever the status, and stores the current distance as the previous one of the next call.
\<close>

theorem distance_change_reward_outside_region:
  assumes "env_objs (dc_wingman cfg) = Some w"
    and "env_objs (dc_rejoin_region cfg) = Some r"
    and "st (dc_rejoin_status cfg) = Some v"
    and "gen_reward dcfg distance ds denv timestep status_dict = Inr (ds', reward)"
  shows "(\<exists>s1. dist_change_increment cfg distance s env_objs step_size st = Inr s1
           \<and> dc_prev_distance s1 = dc_cur_distance s
           \<and> dc_cur_distance s1 = distance w r
           \<and> dist_change_process cfg s1 =
               (if truthy v then 0 else (distance w r - dc_cur_distance s) * dc_reward cfg))
       \<and> (\<exists>cur dc.
             distance_between distance denv ''deputy'' ''docking_region'' = Inr cur
           \<and> dr_prev_distance ds' = cur
           \<and> dr_reward_component_totals ds ''distance_change'' = Some dc
           \<and> dr_reward_component_totals ds' ''distance_change''
               = Some (dc + (cur - dr_prev_distance ds) * cfg_dist_change dcfg))"
proof -
  have rejoin: "\<exists>s1. dist_change_increment cfg distance s env_objs step_size st = Inr s1
           \<and> dc_prev_distance s1 = dc_cur_distance s
           \<and> dc_cur_distance s1 = distance w r
           \<and> dist_change_process cfg s1 =
               (if truthy v then 0 else (distance w r - dc_cur_distance s) * dc_reward cfg)"
    using assms(1-3)
    by (simp add: dist_change_increment_def dist_change_process_def distance_between_def
        getitem_def Let_def)
  from assms(4) obtain cur dc where
    "distance_between distance denv ''deputy'' ''docking_region'' = Inr cur"
    "dr_prev_distance ds' = cur"
    "dr_reward_component_totals ds ''distance_change'' = Some dc"
    "dr_reward_component_totals ds' ''distance_change''
       = Some (dc + (cur - dr_prev_distance ds) * cfg_dist_change dcfg)"
    by (rule gen_reward_InrE)
  then have docking: "\<exists>cur dc.
             distance_between distance denv ''deputy'' ''docking_region'' = Inr cur
           \<and> dr_prev_distance ds' = cur
           \<and> dr_reward_component_totals ds ''distance_change'' = Some dc
           \<and> dr_reward_component_totals ds' ''distance_change''
               = Some (dc + (cur - dr_prev_distance ds) * cfg_dist_change dcfg)"
    by blast
  from rejoin docking show ?thesis by (rule conjI)
qed

theorem distance_change_reward_outside_region_witness:
  "dist_change_increment
     \<lparr>dc_reward = - 1, dc_rejoin_status = ''in_rejoin'', dc_wingman = ''wingman'',
      dc_rejoin_region = ''rejoin_region''\<rparr>
     line_distance
     \<lparr>step_value = 0, total_value = 0,
      dc_prev_distance = 200, dc_cur_distance = 200, dc_in_rejoin = PBool False\<rparr>
     [''wingman'' \<mapsto> 190, ''rejoin_region'' \<mapsto> 0] 1 [''in_rejoin'' \<mapsto> PBool False]
   = Inr \<lparr>step_value = 0, total_value = 0,
          dc_prev_distance = 200, dc_cur_distance = 190, dc_in_rejoin = PBool False\<rparr>
   \<and> dist_change_process
       \<lparr>dc_reward = - 1, dc_rejoin_status = ''in_rejoin'', dc_wingman = ''wingman'',
        dc_rejoin_region = ''rejoin_region''\<rparr>
       \<lparr>step_value = 0, total_value = 0,
        dc_prev_distance = 200, dc_cur_distance = 190, dc_in_rejoin = PBool False\<rparr>
     = (190 - 200) * (- 1)
   \<and> gen_reward
       \<lparr>cfg_time_decay = - 1, cfg_dist_change = - 2,
        cfg_failure = [''timeout'' \<mapsto> - 10, ''distance'' \<mapsto> - 10], cfg_success = 20\<rparr>
       line_distance
       \<lparr>dr_prev_distance = 10, dr_step_reward = 0, dr_total_reward = 0,
        dr_reward_component_totals =
          [''time'' \<mapsto> 0, ''distance_change'' \<mapsto> 0, ''success'' \<mapsto> 0, ''failure'' \<mapsto> 0]\<rparr>
       [''deputy'' \<mapsto> 8, ''docking_region'' \<mapsto> 0] 1
       [''success'' \<mapsto> PBool False, ''failure'' \<mapsto> PBool False]
   = Inr (\<lparr>dr_prev_distance = 8, dr_step_reward = 3, dr_total_reward = 3,
           dr_reward_component_totals =
             [''time'' \<mapsto> - 1, ''distance_change'' \<mapsto> (8 - 10) * (- 2), ''success'' \<mapsto> 0,
              ''failure'' \<mapsto> 0]\<rparr>,
          3)"
proof -
  let ?ds = "\<lparr>dr_prev_distance = 10, dr_step_reward = 0, dr_total_reward = 0,
        dr_reward_component_totals =
          [''time'' \<mapsto> 0, ''distance_change'' \<mapsto> 0, ''success'' \<mapsto> 0, ''failure'' \<mapsto> 0]\<rparr>"
  let ?ds' = "\<lparr>dr_prev_distance = 8, dr_step_reward = 3, dr_total_reward = 3,
           dr_reward_component_totals =
             [''time'' \<mapsto> - 1, ''distance_change'' \<mapsto> (8 - 10) * (- 2), ''success'' \<mapsto> 0,
              ''failure'' \<mapsto> 0]\<rparr>"
  have g: "gen_reward
       \<lparr>cfg_time_decay = - 1, cfg_dist_change = - 2,
        cfg_failure = [''timeout'' \<mapsto> - 10, ''distance'' \<mapsto> - 10], cfg_success = 20\<rparr>
       line_distance ?ds [''deputy'' \<mapsto> 8, ''docking_region'' \<mapsto> 0] 1
       [''success'' \<mapsto> PBool False, ''failure'' \<mapsto> PBool False] = Inr (?ds', 3)"
    by (auto simp add: gen_reward_def distance_between_def terminal_rewards_def
        add_component_totals_def dict_add_def getitem_def fun_eq_iff)
  note inst = distance_change_reward_outside_region
    [where env_objs = "[''wingman'' \<mapsto> 190, ''rejoin_region'' \<mapsto> (0::real)]"
       and cfg = "\<lparr>dc_reward = - 1, dc_rejoin_status = ''in_rejoin'', dc_wingman = ''wingman'',
                   dc_rejoin_region = ''rejoin_region''\<rparr>"
       and w = 190 and r = 0 and st = "[''in_rejoin'' \<mapsto> PBool False]" and v = "PBool False"
       and s = "\<lparr>step_value = 0, total_value = 0,
                 dc_prev_distance = 200, dc_cur_distance = 200, dc_in_rejoin = PBool False\<rparr>"
       and step_size = 1, OF _ _ _ g]
  show ?thesis
    using inst g
    by (simp add: dist_change_increment_def dist_change_process_def distance_between_def
      getitem_def)
qed

subsection \<open>Success and failure in one status record\<close>

text \<open>
  The claim C4 as stated fails: the constraint processor computes the two fields
  independently. With timeout 5 and steps of size 1, a deputy that is outside the docking
  region for five steps and inside it at the sixth gives status records with neither field
  set for five steps, and then one with success true and failure 'timeout'.
\<close>

theorem success_and_failure_together_counterexample:
  "success_failure_fields
     (constraint_steps \<lparr>cc_timeout = 5, cc_max_goal_distance = 100\<rparr>
        line_distance line_contains constraint_reset
        [([''deputy'' \<mapsto> 10, ''docking_region'' \<mapsto> 0], 1),
         ([''deputy'' \<mapsto> 8, ''docking_region'' \<mapsto> 0], 1),
         ([''deputy'' \<mapsto> 6, ''docking_region'' \<mapsto> 0], 1),
         ([''deputy'' \<mapsto> 4, ''docking_region'' \<mapsto> 0], 1),
         ([''deputy'' \<mapsto> 2, ''docking_region'' \<mapsto> 0], 1),
         ([''deputy'' \<mapsto> 0, ''docking_region'' \<mapsto> 0], 1)])
   = Inr [(Some (PBool False), Some (PBool False)),
          (Some (PBool False), Some (PBool False)),
          (Some (PBool False), Some (PBool False)),
          (Some (PBool False), Some (PBool False)),
          (Some (PBool False), Some (PBool False)),
          (Some (PBool True), Some (PStr ''timeout''))]"
  by (simp add: success_failure_fields_def constraint_step_def check_constraints_def
      check_docking_cond_def distance_between_def getitem_def constraint_reset_def)

lemma terminal_rewards_failure_first:
  assumes "terminal_rewards rcfg st = Inr (fr, sr)"
    and "st ''failure'' = Some f" and "truthy f"
  shows "sr = 0"
  using assms
  by (auto simp: terminal_rewards_def getitem_def split: sum.splits)

text \<open>
  C4 (amended). \<open>check_constraints\<close> computes success and failure independently from the
  same state: failure is 'timeout' when the elapsed time is above the timeout, otherwise
  'distance' when the docking distance is at or above the maximum goal distance, otherwise
  False; success is true exactly when the docking region contains the deputy. Both are set
  in one status record exactly when the region contains the deputy while a failure threshold
  is violated. Failure precedes success only where the record is consumed: the reward
  processor gives no success reward for a record whose failure field is set. In the rejoin
  task DubinsSuccessStatus and DubinsFailureStatus are independent in the same way: both
  are set exactly when the rejoin time exceeds the success time while a failure threshold
  is violated.
\<close>

theorem success_failure_independent:
  assumes "env_objs ''deputy'' = Some deputy"
    and "env_objs ''docking_region'' = Some region"
    and "safety_margin fcfg ''aircraft'' = Some margin"
  shows "(\<exists>st fa. check_constraints cfg distance contains s env_objs = Inr st
    \<and> st ''success'' = Some (PBool (contains region deputy))
    \<and> st ''failure'' = Some fa
    \<and> fa = (if cs_time_elapsed s > cc_timeout cfg then PStr ''timeout''
            else if distance deputy region \<ge> cc_max_goal_distance cfg then PStr ''distance''
            else PBool False)
    \<and> (truthy (PBool (contains region deputy)) \<and> truthy fa \<longleftrightarrow>
          contains region deputy
          \<and> (cs_time_elapsed s > cc_timeout cfg
               \<or> distance deputy region \<ge> cc_max_goal_distance cfg))
    \<and> (\<forall>rcfg fr sr. terminal_rewards rcfg st = Inr (fr, sr) \<and> truthy fa \<longrightarrow> sr = 0))
  \<and> (\<exists>su fa. success_process scfg \<lparr>ss_rejoin_time = PNum rt\<rparr> = Inr su
    \<and> failure_process fcfg \<lparr>fs_lead_distance = PNum ld, fs_time_elapsed = PNum te\<rparr> = Inr fa
    \<and> (truthy su \<and> truthy fa \<longleftrightarrow>
          rt > success_time scfg
          \<and> (ld < margin \<or> te > timeout fcfg \<or> ld \<ge> max_goal_dist fcfg)))"
proof -
  define fa where "fa = (if cs_time_elapsed s > cc_timeout cfg then PStr ''timeout''
            else if distance deputy region \<ge> cc_max_goal_distance cfg then PStr ''distance''
            else PBool False)"
  define st where "st = [''success'' \<mapsto> PBool (contains region deputy), ''failure'' \<mapsto> fa,
                        ''in_docking'' \<mapsto> PBool (contains region deputy),
                        ''time_elapsed'' \<mapsto> PNum (cs_time_elapsed s)]"
  have cc: "check_constraints cfg distance contains s env_objs = Inr st"
    using assms(1,2)
    by (simp add: check_constraints_def check_docking_cond_def distance_between_def
        getitem_def st_def fa_def)
  have su: "st ''success'' = Some (PBool (contains region deputy))" by (simp add: st_def)
  have fl: "st ''failure'' = Some fa" by (simp add: st_def)
  have both: "truthy (PBool (contains region deputy)) \<and> truthy fa \<longleftrightarrow>
          contains region deputy
          \<and> (cs_time_elapsed s > cc_timeout cfg
               \<or> distance deputy region \<ge> cc_max_goal_distance cfg)"
    by (simp add: fa_def)
  have prec: "\<forall>rcfg fr sr. terminal_rewards rcfg st = Inr (fr, sr) \<and> truthy fa \<longrightarrow> sr = 0"
    using terminal_rewards_failure_first[where st = st and f = fa] fl by blast
  have docking: "\<exists>st fa. check_constraints cfg distance contains s env_objs = Inr st
    \<and> st ''success'' = Some (PBool (contains region deputy))
    \<and> st ''failure'' = Some fa
    \<and> fa = (if cs_time_elapsed s > cc_timeout cfg then PStr ''timeout''
            else if distance deputy region \<ge> cc_max_goal_distance cfg then PStr ''distance''
            else PBool False)
    \<and> (truthy (PBool (contains region deputy)) \<and> truthy fa \<longleftrightarrow>
          contains region deputy
          \<and> (cs_time_elapsed s > cc_timeout cfg
               \<or> distance deputy region \<ge> cc_max_goal_distance cfg))
    \<and> (\<forall>rcfg fr sr. terminal_rewards rcfg st = Inr (fr, sr) \<and> truthy fa \<longrightarrow> sr = 0)"
    apply (rule exI[of _ st])
    apply (rule exI[of _ fa])
    using cc su fl both prec fa_def by blast
  have rejoin: "\<exists>su fa. success_process scfg \<lparr>ss_rejoin_time = PNum rt\<rparr> = Inr su
    \<and> failure_process fcfg \<lparr>fs_lead_distance = PNum ld, fs_time_elapsed = PNum te\<rparr> = Inr fa
    \<and> (truthy su \<and> truthy fa \<longleftrightarrow>
          rt > success_time scfg
          \<and> (ld < margin \<or> te > timeout fcfg \<or> ld \<ge> max_goal_dist fcfg))"
    using assms(3)
    by (cases "ld < margin"; cases "te > timeout fcfg"; cases "ld \<ge> max_goal_dist fcfg")
       (simp_all add: success_process_def failure_process_def getitem_def py_lt_def py_gt_def
        py_ge_def)
  from docking rejoin show ?thesis by (rule conjI)
qed

theorem success_failure_independent_witness:
  "map_sum id (\<lambda>st. (st ''success'', st ''failure''))
     (check_constraints \<lparr>cc_timeout = 5, cc_max_goal_distance = 100\<rparr>
        line_distance line_contains
        \<lparr>cs_time_elapsed = 6, cs_in_docking = False\<rparr>
        [''deputy'' \<mapsto> 0, ''docking_region'' \<mapsto> (0::real)])
   = Inr (Some (PBool True), Some (PStr ''timeout''))
   \<and> terminal_rewards
       \<lparr>cfg_time_decay = - 1, cfg_dist_change = 2,
        cfg_failure = [''timeout'' \<mapsto> - 10, ''distance'' \<mapsto> - 10], cfg_success = 5\<rparr>
       [''success'' \<mapsto> PBool True, ''failure'' \<mapsto> PStr ''timeout'']
     = Inr (- 10, 0)
   \<and> success_process \<lparr>rejoin_time_key = ''rejoin_time'', success_time = 20\<rparr>
       \<lparr>ss_rejoin_time = PNum 21\<rparr> = Inr (PBool True)
   \<and> failure_process
       \<lparr>lead_distance_key = ''lead_distance'', time_elapsed_key = ''time_elapsed'',
        safety_margin = [''aircraft'' \<mapsto> 10], timeout = 500, max_goal_dist = 50000\<rparr>
       \<lparr>fs_lead_distance = PNum 100, fs_time_elapsed = PNum 501\<rparr> = Inr (PStr ''timeout'')"
  using success_failure_independent
    [of "[''deputy'' \<mapsto> 0, ''docking_region'' \<mapsto> (0::real)]" 0 0
        "\<lparr>lead_distance_key = ''lead_distance'', time_elapsed_key = ''time_elapsed'',
          safety_margin = [''aircraft'' \<mapsto> 10], timeout = 500, max_goal_dist = 50000\<rparr>" 10
        "\<lparr>cc_timeout = 5, cc_max_goal_distance = 100\<rparr>"
        "line_distance" "line_contains"
        "\<lparr>cs_time_elapsed = 6, cs_in_docking = False\<rparr>"
        "\<lparr>rejoin_time_key = ''rejoin_time'', success_time = 20\<rparr>" 21 100 501]
  by (simp add: check_constraints_def check_docking_cond_def distance_between_def getitem_def
      terminal_rewards_def failure_reward_of_def success_process_def failure_process_def
      py_lt_def py_gt_def py_ge_def)

subsection \<open>RejoinRewardProcessor: dwell reward\<close>

text \<open>
  The claim C5 as stated fails in its only-if direction: with weight 0 the step reward of a
  step with both containment statuses false is 0, which equals \<open>weight * step_size\<close>.
\<close>

theorem dwell_reward_value_iff_counterexample:
  "rejoin_reward_increment
     \<lparr>rr_reward = 0, rr_rejoin_status = ''in_rejoin'', rr_rejoin_prev_status = ''in_rejoin_prev''\<rparr>
     rejoin_reward_reset 1
     [''in_rejoin'' \<mapsto> PBool False, ''in_rejoin_prev'' \<mapsto> PBool False]
   = Inr \<lparr>step_value = 0, total_value = 0,
          rr_step_size = 1, rr_in_rejoin_for_step = False, rr_left_rejoin = False\<rparr>
   \<and> rejoin_reward_process
       \<lparr>rr_reward = 0, rr_rejoin_status = ''in_rejoin'', rr_rejoin_prev_status = ''in_rejoin_prev''\<rparr>
       \<lparr>step_value = 0, total_value = 0,
        rr_step_size = 1, rr_in_rejoin_for_step = False, rr_left_rejoin = False\<rparr>
     = rr_reward
         \<lparr>rr_reward = 0, rr_rejoin_status = ''in_rejoin'',
          rr_rejoin_prev_status = ''in_rejoin_prev''\<rparr> * 1
   \<and> \<not> (truthy (PBool False) \<and> truthy (PBool False))"
  by (simp add: rejoin_reward_increment_def rejoin_reward_process_def rejoin_reward_reset_def
      getitem_def)

text \<open>
  In an episode with step sizes that are not negative, the running total stays a multiple
  \<open>weight * T\<close> of the weight with \<open>T\<close> not negative: the time spent in the region since
  the last exit.
\<close>

lemma rejoin_reward_step_total:
  assumes "rejoin_reward_step cfg s step_size st = Inr (s', r)"
    and "0 \<le> step_size"
    and "\<exists>T\<ge>0. total_value s = rr_reward cfg * T"
  shows "\<exists>T\<ge>0. total_value s' = rr_reward cfg * T"
proof -
  from assms(3) obtain T where T: "0 \<le> T" "total_value s = rr_reward cfg * T" by blast
  from assms(1) obtain s1 where
    inc: "rejoin_reward_increment cfg s step_size st = Inr s1"
    and s': "s' = reward_acc_record (rejoin_reward_process cfg s1) s1"
    by (auto simp: rejoin_reward_step_def Let_def split: sum.splits)
  from inc have tv: "total_value s1 = total_value s" and sz: "rr_step_size s1 = step_size"
    and excl: "\<not> (rr_in_rejoin_for_step s1 \<and> rr_left_rejoin s1)"
    by (auto simp: rejoin_reward_increment_def Let_def split: sum.splits if_splits)
  consider (dwell) "rr_in_rejoin_for_step s1"
    | (exit) "\<not> rr_in_rejoin_for_step s1" "rr_left_rejoin s1"
    | (none) "\<not> rr_in_rejoin_for_step s1" "\<not> rr_left_rejoin s1"
    by blast
  then show ?thesis
  proof cases
    case dwell
    then have "total_value s' = rr_reward cfg * (T + step_size)"
      using s' tv sz T(2)
      by (simp add: reward_acc_record_def rejoin_reward_process_def algebra_simps)
    moreover have "0 \<le> T + step_size" using T(1) assms(2) by simp
    ultimately show ?thesis by blast
  next
    case exit
    then have "total_value s' = rr_reward cfg * 0"
      using s' by (simp add: reward_acc_record_def rejoin_reward_process_def)
    then show ?thesis by (intro exI[of _ 0]) simp
  next
    case none
    then have "total_value s' = rr_reward cfg * T"
      using s' tv T(2) by (simp add: reward_acc_record_def rejoin_reward_process_def)
    with T(1) show ?thesis by blast
  qed
qed

lemma rejoin_reward_steps_total:
  "rejoin_reward_steps cfg s steps = Inr s' \<Longrightarrow>
   \<forall>x \<in> set steps. 0 < fst x \<Longrightarrow>
   \<exists>T\<ge>0. total_value s = rr_reward cfg * T \<Longrightarrow>
   \<exists>T\<ge>0. total_value s' = rr_reward cfg * T"
proof (induction steps arbitrary: s)
  case Nil
  then show ?case by simp
next
  case (Cons x steps)
  obtain dt st where x: "x = (dt, st)" by (cases x)
  from Cons.prems(1) x obtain s1 r where
    one: "rejoin_reward_step cfg s dt st = Inr (s1, r)"
    and rest: "rejoin_reward_steps cfg s1 steps = Inr s'"
    by (auto split: sum.splits)
  from Cons.prems(2) x have dt: "0 \<le> dt" and pos: "\<forall>x \<in> set steps. 0 < fst x" by auto
  from rejoin_reward_step_total[OF one dt Cons.prems(3)]
  have "\<exists>T\<ge>0. total_value s1 = rr_reward cfg * T" .
  from Cons.IH[OF rest pos this] show ?case .
qed

lemma rejoin_reward_reset_total: "\<exists>T\<ge>0. total_value rejoin_reward_reset = rr_reward cfg * T"
  by (intro exI[of _ 0]) (simp add: rejoin_reward_reset_def)

text \<open>
  C5 (amended). RejoinRewardProcessor: \<open>_increment\<close> sets the dwell flag exactly when the
  previous-step and the current containment status are both true, and then the step reward
  is \<open>weight * step_size\<close>. When the previous-step status is false (in particular when
  containment became true only during this step) the step reward is zero; when the region
  was exited it is the refund. In a state that an episode with positive step sizes reaches,
  with a nonzero weight and a positive step size, the step reward equals
  \<open>weight * step_size\<close> exactly when both statuses are true.
\<close>

theorem dwell_reward_by_case:
  assumes "st (rr_rejoin_status cfg) = Some c"
    and "st (rr_rejoin_prev_status cfg) = Some p"
  shows "\<exists>s1. rejoin_reward_increment cfg s step_size st = Inr s1
         \<and> (rr_in_rejoin_for_step s1 \<longleftrightarrow> truthy p \<and> truthy c)
         \<and> (truthy p \<and> truthy c \<longrightarrow> rejoin_reward_process cfg s1 = rr_reward cfg * step_size)
         \<and> (\<not> truthy p \<longrightarrow> rejoin_reward_process cfg s1 = 0)
         \<and> (truthy p \<and> \<not> truthy c \<longrightarrow> rejoin_reward_process cfg s1 = - total_value s)
         \<and> (rr_reward cfg \<noteq> 0 \<and> 0 < step_size
              \<and> rejoin_reward_steps cfg rejoin_reward_reset steps = Inr s
              \<and> (\<forall>x \<in> set steps. 0 < fst x) \<longrightarrow>
              (rejoin_reward_process cfg s1 = rr_reward cfg * step_size
                 \<longleftrightarrow> truthy p \<and> truthy c))"
proof -
  define s1 where "s1 = (let s0 = s\<lparr>rr_left_rejoin := False, rr_in_rejoin_for_step := False,
                  rr_step_size := step_size\<rparr>
      in if truthy c \<and> truthy p then s0\<lparr>rr_in_rejoin_for_step := True\<rparr>
         else if \<not> truthy c \<and> truthy p then s0\<lparr>rr_left_rejoin := True\<rparr> else s0)"
  have inc: "rejoin_reward_increment cfg s step_size st = Inr s1"
    using assms by (simp add: rejoin_reward_increment_def getitem_def s1_def Let_def)
  have flag: "rr_in_rejoin_for_step s1 \<longleftrightarrow> truthy p \<and> truthy c"
    by (auto simp: s1_def Let_def)
  have both: "truthy p \<and> truthy c \<longrightarrow> rejoin_reward_process cfg s1 = rr_reward cfg * step_size"
    by (auto simp: s1_def Let_def rejoin_reward_process_def)
  have entry: "\<not> truthy p \<longrightarrow> rejoin_reward_process cfg s1 = 0"
    by (auto simp: s1_def Let_def rejoin_reward_process_def)
  have exit: "truthy p \<and> \<not> truthy c \<longrightarrow> rejoin_reward_process cfg s1 = - total_value s"
    by (auto simp: s1_def Let_def rejoin_reward_process_def)
  have iff: "rejoin_reward_process cfg s1 = rr_reward cfg * step_size \<longleftrightarrow> truthy p \<and> truthy c"
    if w: "rr_reward cfg \<noteq> 0" and dt: "0 < step_size"
      and run: "rejoin_reward_steps cfg rejoin_reward_reset steps = Inr s"
      and pos: "\<forall>x \<in> set steps. 0 < fst x"
  proof -
    from rejoin_reward_steps_total[OF run pos rejoin_reward_reset_total]
    obtain T where T: "0 \<le> T" "total_value s = rr_reward cfg * T" by blast
    have ne: "rr_reward cfg * step_size \<noteq> 0" using w dt by simp
    have "- total_value s \<noteq> rr_reward cfg * step_size"
    proof
      assume "- total_value s = rr_reward cfg * step_size"
      with T(2) have "rr_reward cfg * (T + step_size) = 0" by (simp add: algebra_simps)
      with w have "T + step_size = 0" by simp
      with T(1) dt show False by simp
    qed
    with ne both entry exit show ?thesis by (cases "truthy p"; cases "truthy c") auto
  qed
  from inc flag both entry exit iff show ?thesis by blast
qed

theorem dwell_reward_by_case_witness:
  "rejoin_reward_steps
     \<lparr>rr_reward = 1, rr_rejoin_status = ''in_rejoin'', rr_rejoin_prev_status = ''in_rejoin_prev''\<rparr>
     rejoin_reward_reset
     [(1, [''in_rejoin'' \<mapsto> PBool False, ''in_rejoin_prev'' \<mapsto> PBool False])]
   = Inr \<lparr>step_value = 0, total_value = 0,
          rr_step_size = 1, rr_in_rejoin_for_step = False, rr_left_rejoin = False\<rparr>
   \<and> rejoin_reward_increment
       \<lparr>rr_reward = 1, rr_rejoin_status = ''in_rejoin'', rr_rejoin_prev_status = ''in_rejoin_prev''\<rparr>
       \<lparr>step_value = 0, total_value = 0,
        rr_step_size = 1, rr_in_rejoin_for_step = False, rr_left_rejoin = False\<rparr> 1
       [''in_rejoin'' \<mapsto> PBool True, ''in_rejoin_prev'' \<mapsto> PBool False]
   = Inr \<lparr>step_value = 0, total_value = 0,
          rr_step_size = 1, rr_in_rejoin_for_step = False, rr_left_rejoin = False\<rparr>
   \<and> rejoin_reward_process
       \<lparr>rr_reward = 1, rr_rejoin_status = ''in_rejoin'', rr_rejoin_prev_status = ''in_rejoin_prev''\<rparr>
       \<lparr>step_value = 0, total_value = 0,
        rr_step_size = 1, rr_in_rejoin_for_step = False, rr_left_rejoin = False\<rparr>
     = 0
   \<and> rejoin_reward_process
       \<lparr>rr_reward = 1, rr_rejoin_status = ''in_rejoin'', rr_rejoin_prev_status = ''in_rejoin_prev''\<rparr>
       \<lparr>step_value = 0, total_value = 0,
        rr_step_size = 1, rr_in_rejoin_for_step = False, rr_left_rejoin = False\<rparr>
     \<noteq> 1 * 1"
  using dwell_reward_by_case
    [of "[''in_rejoin'' \<mapsto> PBool True, ''in_rejoin_prev'' \<mapsto> PBool False]"
        "\<lparr>rr_reward = 1, rr_rejoin_status = ''in_rejoin'',
          rr_rejoin_prev_status = ''in_rejoin_prev''\<rparr>"
        "PBool True" "PBool False"
        "\<lparr>step_value = 0, total_value = 0,
          rr_step_size = 1, rr_in_rejoin_for_step = False, rr_left_rejoin = False\<rparr>" 1
        "[(1, [''in_rejoin'' \<mapsto> PBool False, ''in_rejoin_prev'' \<mapsto> PBool False])]"]
  by (simp add: rejoin_reward_step_def rejoin_reward_increment_def rejoin_reward_process_def
      rejoin_reward_reset_def reward_acc_record_def getitem_def)

subsection \<open>RejoinFirstTimeRewardProcessor: the bonus is given once\<close>

lemma first_award_length: "length (first_award b cs) = length cs"
  by (induction cs) auto

lemma first_award_nth:
  "i < length cs \<Longrightarrow>
     first_award b cs ! i = (if cs ! i \<and> (\<forall>j<i. \<not> cs ! j) then b else 0)"
proof (induction cs arbitrary: i)
  case Nil
  then show ?case by simp
next
  case (Cons c cs)
  show ?case
  proof (cases i)
    case 0
    then show ?thesis by simp
  next
    case (Suc k)
    with Cons.prems have k: "k < length cs" by simp
    show ?thesis
    proof (cases c)
      case True
      with Suc k show ?thesis by auto
    next
      case False
      have "(\<forall>j<Suc k. \<not> (c # cs) ! j) \<longleftrightarrow> (\<forall>j<k. \<not> cs ! j)"
        using False by (auto simp: less_Suc_eq_0_disj)
      with False Suc Cons.IH[OF k] show ?thesis by simp
    qed
  qed
qed

lemma first_time_steps_from:
  assumes "\<forall>x \<in> set steps. snd x (ft_rejoin_status cfg) \<noteq> None"
  shows "\<exists>s'. first_time_steps cfg s steps =
           Inr (s', if ft_rejoin_first_time s \<or> ft_rejoin_first_time_applied s
                    then replicate (length steps) 0
                    else first_award (ft_reward cfg) (map (\<lambda>x. ft_contained cfg (snd x)) steps))"
  using assms
proof (induction steps arbitrary: s)
  case Nil
  then show ?case by simp
next
  case (Cons x steps)
  obtain dt st where x: "x = (dt, st)" by (cases x)
  from Cons.prems x obtain v where v: "st (ft_rejoin_status cfg) = Some v" by auto
  from Cons.prems have rest: "\<forall>x \<in> set steps. snd x (ft_rejoin_status cfg) \<noteq> None" by simp
  show ?case
  proof (cases "ft_rejoin_first_time s \<or> ft_rejoin_first_time_applied s")
    case True
    define s1 where "s1 = (if ft_rejoin_first_time s
                then s\<lparr>ft_rejoin_first_time_applied := True, ft_rejoin_first_time := False\<rparr>
                else s)"
    have step: "first_time_step cfg s dt st = Inr (reward_acc_record 0 s1, 0)"
      using True v
      by (auto simp: first_time_step_def first_time_increment_def first_time_process_def
          getitem_def Let_def s1_def)
    have flags: "ft_rejoin_first_time (reward_acc_record 0 s1) \<or> ft_rejoin_first_time_applied (reward_acc_record 0 s1)"
      using True by (auto simp: s1_def reward_acc_record_def)
    from Cons.IH[OF rest, of "reward_acc_record 0 s1"] flags obtain s' where
      "first_time_steps cfg (reward_acc_record 0 s1) steps = Inr (s', replicate (length steps) 0)"
      by auto
    with step True x show ?thesis by simp
  next
    case False
    show ?thesis
    proof (cases "truthy v")
      case True
      have step: "first_time_step cfg s dt st =
          Inr (reward_acc_record (ft_reward cfg) (s\<lparr>ft_rejoin_first_time := True\<rparr>), ft_reward cfg)"
        using False True v
        by (auto simp: first_time_step_def first_time_increment_def first_time_process_def
            getitem_def Let_def)
      have flags: "ft_rejoin_first_time (reward_acc_record (ft_reward cfg) (s\<lparr>ft_rejoin_first_time := True\<rparr>))"
        by (simp add: reward_acc_record_def)
      from Cons.IH[OF rest, of "reward_acc_record (ft_reward cfg) (s\<lparr>ft_rejoin_first_time := True\<rparr>)"] flags
      obtain s' where
        "first_time_steps cfg (reward_acc_record (ft_reward cfg) (s\<lparr>ft_rejoin_first_time := True\<rparr>)) steps
           = Inr (s', replicate (length steps) 0)"
        by auto
      with step False True v x show ?thesis by (simp add: ft_contained_def)
    next
      case nt: False
      have step: "first_time_step cfg s dt st = Inr (reward_acc_record 0 s, 0)"
        using False nt v
        by (auto simp: first_time_step_def first_time_increment_def first_time_process_def
            getitem_def Let_def)
      have flags: "\<not> (ft_rejoin_first_time (reward_acc_record 0 s) \<or> ft_rejoin_first_time_applied (reward_acc_record 0 s))"
        using False by (simp add: reward_acc_record_def)
      from Cons.IH[OF rest, of "reward_acc_record 0 s"] flags
      obtain s' where
        "first_time_steps cfg (reward_acc_record 0 s) steps
           = Inr (s', first_award (ft_reward cfg) (map (\<lambda>x. ft_contained cfg (snd x)) steps))"
        by auto
      with step False nt v x show ?thesis by (simp add: ft_contained_def)
    qed
  qed
qed

text \<open>
  C6. RejoinFirstTimeRewardProcessor: in an episode (a reset, then any sequence of steps
  whose status mappings give the containment status), the step reward is the configured
  bonus on the first step whose containment status is true and zero on every other step; so
  at most one step of the episode has a nonzero step reward, however the containment status
  toggles afterwards.
\<close>

theorem first_time_bonus_once:
  assumes "st0 (ft_rejoin_status cfg) \<noteq> None"
    and "\<forall>x \<in> set steps. snd x (ft_rejoin_status cfg) \<noteq> None"
  shows "\<exists>s rs. first_time_episode cfg st0 steps = Inr (s, rs)
           \<and> length rs = length steps
           \<and> (\<forall>i < length steps.
                 rs ! i = (if ft_contained cfg (snd (steps ! i))
                              \<and> (\<forall>j<i. \<not> ft_contained cfg (snd (steps ! j)))
                           then ft_reward cfg else 0))
           \<and> (\<forall>i < length steps. \<forall>j < length steps. rs ! i \<noteq> 0 \<and> rs ! j \<noteq> 0 \<longrightarrow> i = j)"
proof -
  from assms(1) obtain v where v: "st0 (ft_rejoin_status cfg) = Some v" by auto
  define s0 where "s0 = \<lparr>step_value = 0, total_value = 0,
               ft_rejoin_first_time = False, ft_rejoin_first_time_applied = False,
               ft_in_rejoin = v\<rparr>"
  have r: "first_time_reset cfg st0 = Inr s0"
    using v by (simp add: first_time_reset_def getitem_def s0_def)
  let ?cs = "map (\<lambda>x. ft_contained cfg (snd x)) steps"
  from first_time_steps_from[OF assms(2), of s0] obtain s where
    s: "first_time_steps cfg s0 steps = Inr (s, first_award (ft_reward cfg) ?cs)"
    by (auto simp: s0_def)
  have ep: "first_time_episode cfg st0 steps = Inr (s, first_award (ft_reward cfg) ?cs)"
    using r s by (simp add: first_time_episode_def)
  have nth: "\<forall>i < length steps.
      first_award (ft_reward cfg) ?cs ! i =
        (if ft_contained cfg (snd (steps ! i)) \<and> (\<forall>j<i. \<not> ft_contained cfg (snd (steps ! j)))
         then ft_reward cfg else 0)"
  proof (intro allI impI)
    fix i assume i: "i < length steps"
    then have "i < length ?cs" by simp
    from first_award_nth[OF this, of "ft_reward cfg"] i show
      "first_award (ft_reward cfg) ?cs ! i =
        (if ft_contained cfg (snd (steps ! i)) \<and> (\<forall>j<i. \<not> ft_contained cfg (snd (steps ! j)))
         then ft_reward cfg else 0)"
      by auto
  qed
  have uniq: "\<forall>i < length steps. \<forall>j < length steps.
      first_award (ft_reward cfg) ?cs ! i \<noteq> 0 \<and> first_award (ft_reward cfg) ?cs ! j \<noteq> 0 \<longrightarrow> i = j"
  proof (intro allI impI)
    fix i j assume i: "i < length steps" and j: "j < length steps"
      and nz: "first_award (ft_reward cfg) ?cs ! i \<noteq> 0 \<and> first_award (ft_reward cfg) ?cs ! j \<noteq> 0"
    from nth i nz have ci: "ft_contained cfg (snd (steps ! i))" and mi: "\<forall>k<i. \<not> ft_contained cfg (snd (steps ! k))"
      by (auto split: if_splits)
    from nth j nz have cj: "ft_contained cfg (snd (steps ! j))" and mj: "\<forall>k<j. \<not> ft_contained cfg (snd (steps ! k))"
      by (auto split: if_splits)
    show "i = j"
    proof (rule ccontr)
      assume "i \<noteq> j"
      then consider "i < j" | "j < i" by linarith
      then show False using ci cj mi mj by cases auto
    qed
  qed
  show ?thesis
    using ep nth uniq by (simp add: first_award_length)
qed

theorem first_time_bonus_once_witness:
  "map_sum id snd
     (first_time_episode \<lparr>ft_reward = 5, ft_rejoin_status = ''in_rejoin''\<rparr>
        [''in_rejoin'' \<mapsto> PBool False]
        [(1, [''in_rejoin'' \<mapsto> PBool False]),
         (1, [''in_rejoin'' \<mapsto> PBool True]),
         (1, [''in_rejoin'' \<mapsto> PBool True]),
         (1, [''in_rejoin'' \<mapsto> PBool False]),
         (1, [''in_rejoin'' \<mapsto> PBool True])])
   = Inr [0, 5, 0, 0, 0]"
  using first_time_bonus_once
    [of "[''in_rejoin'' \<mapsto> PBool False]" "\<lparr>ft_reward = 5, ft_rejoin_status = ''in_rejoin''\<rparr>"
        "[(1, [''in_rejoin'' \<mapsto> PBool False]),
         (1, [''in_rejoin'' \<mapsto> PBool True]),
         (1, [''in_rejoin'' \<mapsto> PBool True]),
         (1, [''in_rejoin'' \<mapsto> PBool False]),
         (1, [''in_rejoin'' \<mapsto> PBool True])]"]
  by (simp add: first_time_episode_def first_time_reset_def first_time_step_def
      first_time_increment_def first_time_process_def reward_acc_record_def getitem_def)

subsection \<open>DubinsRejoinTime\<close>

text \<open>
  C7. DubinsRejoinTime: reset sets the duration to zero; an \<open>_increment\<close> whose containment
  status is true adds exactly \<open>step_size\<close> to it; an \<open>_increment\<close> whose containment status is
  false leaves it at exactly zero, whatever had been accumulated; \<open>_process\<close> reports the
  stored duration.
\<close>

theorem rejoin_time_accumulates_or_resets:
  assumes "st (rt_rejoin_status cfg) = Some v"
  shows "(\<exists>s0. rejoin_time_reset cfg st = Inr s0 \<and> rejoin_time_process s0 = 0)
     \<and> (\<exists>s'. rejoin_time_increment cfg s step_size st = Inr s'
          \<and> rejoin_time_process s' =
              (if truthy v then rejoin_time_process s + step_size else 0))"
  using assms
  by (simp add: rejoin_time_reset_def rejoin_time_increment_def rejoin_time_process_def
      getitem_def Let_def)

theorem rejoin_time_accumulates_or_resets_witness:
  "[''in_rejoin'' \<mapsto> PBool False] (rt_rejoin_status \<lparr>rt_rejoin_status = ''in_rejoin''\<rparr>)
      = Some (PBool False)
   \<and> rejoin_time_increment \<lparr>rt_rejoin_status = ''in_rejoin''\<rparr>
        \<lparr>rt_rejoin_time = 7, rt_in_rejoin = PBool True\<rparr> 1 [''in_rejoin'' \<mapsto> PBool False]
      = Inr \<lparr>rt_rejoin_time = 0, rt_in_rejoin = PBool False\<rparr>"
  using rejoin_time_accumulates_or_resets
    [of "[''in_rejoin'' \<mapsto> PBool False]" "\<lparr>rt_rejoin_status = ''in_rejoin''\<rparr>" "PBool False"
        "\<lparr>rt_rejoin_time = 7, rt_in_rejoin = PBool True\<rparr>" 1]
  by (simp add: rejoin_time_increment_def getitem_def)

subsection \<open>Magnitude-normalized encoding\<close>

lemma sq_sum_eq_0_iff:
  "sum_list (map (\<lambda>x. x ^ 2) (vec :: real list)) = 0 \<longleftrightarrow> (\<forall>x \<in> set vec. x = 0)"
proof (induction vec)
  case Nil
  then show ?case by simp
next
  case (Cons a vec)
  have nn: "0 \<le> sum_list (map (\<lambda>x. x ^ 2) vec)"
    by (rule sum_list_nonneg) auto
  have "a ^ 2 + sum_list (map (\<lambda>x. x ^ 2) vec) = 0
          \<longleftrightarrow> a ^ 2 = 0 \<and> sum_list (map (\<lambda>x. x ^ 2) vec) = 0"
    using nn by (intro add_nonneg_eq_0_iff) simp_all
  with Cons.IH show ?case by simp
qed

lemma np_linalg_norm_eq_0_iff: "np_linalg_norm vec = 0 \<longleftrightarrow> (\<forall>x \<in> set vec. x = 0)"
  by (simp add: np_linalg_norm_def sq_sum_eq_0_iff)



subsection \<open>DubinsObservationProcessor: the observation at a zero vector\<close>

lemma vec2magnorm_zero:
  assumes "\<forall>x \<in> set vec. x = 0"
  shows "vec2magnorm vec = Fin 0 # replicate (length vec) NaN"
proof -
  from assms have n: "np_linalg_norm vec = 0" by (simp add: np_linalg_norm_eq_0_iff)
  have "map (\<lambda>x. np_div (Fin x) (Fin 0)) vec = replicate (length vec) NaN"
    using assms by (induction vec) simp_all
  with n show ?thesis by (simp add: vec2magnorm_def)
qed

lemma np_clip_nan_or_unit_box: "np_clip (- 1) 1 x = NaN \<or> in_unit_box (np_clip (- 1) 1 x)"
  by (cases x) auto

lemma obs_process_nan_or_unit_box:
  assumes "obs_process cfg lib env_objs = Inr obs"
  shows "\<forall>x \<in> set obs. x = NaN \<or> in_unit_box x"
proof -
  from assms obtain raw where "obs = map (np_clip (- 1) 1) raw"
    by (auto simp: obs_process_def Let_def split: sum.splits)
  then show ?thesis using np_clip_nan_or_unit_box by auto
qed


subsection \<open>DockingRewardProcessor: totals\<close>






end
